theory Spec2Isabelle
  imports Complex_Main
begin

section \<open>Connection lifecycle states (internal/state/states.go)\<close>

text \<open>
  The Go source declares \<open>type State string\<close> together with one block of typed
  constants. The constants are the only values the bridge ever produces, so the type is
  modelled as a datatype with one constructor per declared constant, in declaration
  order. \<open>State_String\<close> gives back the string each constant stands for.
\<close>

datatype State =
    StateDisconnected
  | StateConnecting
  | StateConnected
  | StateReconnecting
  | StateQRPending
  | StateAuthenticating
  | StateSyncing
  | StateReady
  | StateLoggedOut
  | StateSessionExpired
  | StateTemporaryBan
  | StateShuttingDown
  | StateFatalError

fun State_String :: "State \<Rightarrow> string" where
  "State_String StateDisconnected = ''disconnected''"
| "State_String StateConnecting = ''connecting''"
| "State_String StateConnected = ''connected''"
| "State_String StateReconnecting = ''reconnecting''"
| "State_String StateQRPending = ''qr_pending''"
| "State_String StateAuthenticating = ''authenticating''"
| "State_String StateSyncing = ''syncing''"
| "State_String StateReady = ''ready''"
| "State_String StateLoggedOut = ''logged_out''"
| "State_String StateSessionExpired = ''session_expired''"
| "State_String StateTemporaryBan = ''temporary_ban''"
| "State_String StateShuttingDown = ''shutting_down''"
| "State_String StateFatalError = ''fatal_error''"

text \<open>The constants of the declaration block, in the order the source lists them.\<close>

definition declared_states :: "State list" where
  "declared_states =
     [StateDisconnected, StateConnecting, StateConnected, StateReconnecting,
      StateQRPending, StateAuthenticating, StateSyncing, StateReady,
      StateLoggedOut, StateSessionExpired, StateTemporaryBan, StateShuttingDown,
      StateFatalError]"

text \<open>
  The partition the specification names in its data model: idle, transient-connecting,
  operational, recovery and terminal states. This list follows the specification's
  words, not the source.
\<close>

definition spec_partition :: "State list" where
  "spec_partition =
     [StateDisconnected,
      StateConnecting, StateQRPending, StateAuthenticating, StateSyncing,
      StateReady,
      StateReconnecting,
      StateLoggedOut, StateSessionExpired, StateTemporaryBan, StateShuttingDown,
      StateFatalError]"

fun IsConnectedSubstate :: "State \<Rightarrow> bool" where
  "IsConnectedSubstate StateQRPending = True"
| "IsConnectedSubstate StateAuthenticating = True"
| "IsConnectedSubstate StateSyncing = True"
| "IsConnectedSubstate StateReady = True"
| "IsConnectedSubstate _ = False"

fun IsTerminal :: "State \<Rightarrow> bool" where
  "IsTerminal StateLoggedOut = True"
| "IsTerminal StateSessionExpired = True"
| "IsTerminal StateTemporaryBan = True"
| "IsTerminal StateFatalError = True"
| "IsTerminal _ = False"

definition IsOperational :: "State \<Rightarrow> bool" where
  "IsOperational s = (s = StateReady)"

section \<open>Triggers (package state)\<close>

datatype Trigger =
    TriggerConnect
  | TriggerDisconnect
  | TriggerQRRequired
  | TriggerQRScanned
  | TriggerAuthenticated
  | TriggerSyncComplete
  | TriggerConnectionLost
  | TriggerReconnect
  | TriggerReconnected
  | TriggerSessionInvalid
  | TriggerBanDetected
  | TriggerBanLifted
  | TriggerLogout
  | TriggerShutdown
  | TriggerFatalError


section \<open>The state machine (internal/state/machine.go)\<close>

text \<open>
  \<open>NewMachine\<close> configures a \<open>stateless.StateMachine\<close>: each
  \<open>sm.Configure(s).Permit(t, d)\<close> adds the pair \<open>(t, d)\<close> to the row of \<open>s\<close>.
  \<open>configuration\<close> lists the rows in the order of the \<open>Configure\<close> calls and, inside a
  row, in the order of the \<open>Permit\<close> calls. \<open>StateConnected\<close> is never configured, and
  the row of \<open>StateShuttingDown\<close> is empty. The configuration is built once in
  \<open>NewMachine\<close> and \<open>Machine\<close> exposes no way to change it afterwards.
\<close>

definition configuration :: "(State \<times> (Trigger \<times> State) list) list" where
  "configuration =
     [(StateDisconnected,
         [(TriggerConnect, StateConnecting),
          (TriggerShutdown, StateShuttingDown)]),
      (StateConnecting,
         [(TriggerQRRequired, StateQRPending),
          (TriggerAuthenticated, StateSyncing),
          (TriggerConnectionLost, StateReconnecting),
          (TriggerDisconnect, StateDisconnected),
          (TriggerShutdown, StateShuttingDown),
          (TriggerFatalError, StateFatalError)]),
      (StateQRPending,
         [(TriggerQRScanned, StateAuthenticating),
          (TriggerConnectionLost, StateReconnecting),
          (TriggerDisconnect, StateDisconnected),
          (TriggerShutdown, StateShuttingDown),
          (TriggerFatalError, StateFatalError)]),
      (StateAuthenticating,
         [(TriggerAuthenticated, StateSyncing),
          (TriggerSessionInvalid, StateSessionExpired),
          (TriggerConnectionLost, StateReconnecting),
          (TriggerDisconnect, StateDisconnected),
          (TriggerShutdown, StateShuttingDown),
          (TriggerFatalError, StateFatalError)]),
      (StateSyncing,
         [(TriggerSyncComplete, StateReady),
          (TriggerConnectionLost, StateReconnecting),
          (TriggerDisconnect, StateDisconnected),
          (TriggerShutdown, StateShuttingDown),
          (TriggerFatalError, StateFatalError)]),
      (StateReady,
         [(TriggerConnectionLost, StateReconnecting),
          (TriggerSessionInvalid, StateSessionExpired),
          (TriggerBanDetected, StateTemporaryBan),
          (TriggerLogout, StateLoggedOut),
          (TriggerDisconnect, StateDisconnected),
          (TriggerShutdown, StateShuttingDown),
          (TriggerFatalError, StateFatalError)]),
      (StateReconnecting,
         [(TriggerReconnected, StateReady),
          (TriggerQRRequired, StateQRPending),
          (TriggerSessionInvalid, StateSessionExpired),
          (TriggerDisconnect, StateDisconnected),
          (TriggerShutdown, StateShuttingDown),
          (TriggerFatalError, StateFatalError)]),
      (StateTemporaryBan,
         [(TriggerBanLifted, StateReconnecting),
          (TriggerDisconnect, StateDisconnected),
          (TriggerShutdown, StateShuttingDown),
          (TriggerFatalError, StateFatalError)]),
      (StateLoggedOut,
         [(TriggerConnect, StateConnecting),
          (TriggerShutdown, StateShuttingDown)]),
      (StateSessionExpired,
         [(TriggerConnect, StateConnecting),
          (TriggerShutdown, StateShuttingDown)]),
      (StateShuttingDown, []),
      (StateFatalError,
         [(TriggerShutdown, StateShuttingDown)])]"

text \<open>
  The lookup \<open>FireCtx\<close> and \<open>CanFireCtx\<close> perform: the row of the current state (a
  state that was never configured has an empty row), then the trigger inside the row.
\<close>

definition FindHandler :: "State \<Rightarrow> Trigger \<Rightarrow> State option" where
  "FindHandler s t =
     (case map_of configuration s of
        None \<Rightarrow> None
      | Some row \<Rightarrow> map_of row t)"

text \<open>Every destination some \<open>Permit\<close> call names.\<close>

definition destinations :: "State list" where
  "destinations = concat (map (\<lambda>(s, row). map snd row) configuration)"

text \<open>
  The one error \<open>FireCtx\<close> returns with this configuration (no guards, no trigger
  parameters): no leaving transition is permitted from the state for the trigger.
\<close>

datatype TransitionError = InvalidTransition State Trigger


text \<open>
  \<open>Machine\<close> holds the library machine (its current state) and the registered
  callbacks. A callback receives \<open>(from, to, trigger)\<close> and acts on whatever its closure
  captured; that captured world is the type parameter \<open>'w\<close>.
\<close>

type_synonym 'w TransitionCallback = "State \<Rightarrow> State \<Rightarrow> Trigger \<Rightarrow> 'w \<Rightarrow> 'w"

record 'w Machine =
  sm :: State
  callbacks :: "'w TransitionCallback list"

definition NewMachine :: "'w Machine" where
  "NewMachine = \<lparr>sm = StateDisconnected, callbacks = []\<rparr>"

definition MachineState :: "'w Machine \<Rightarrow> State" where
  "MachineState m = sm m"


text \<open>
  The \<open>OnTransitioned\<close> hook installed by \<open>NewMachine\<close>: every registered callback
  runs, in registration order, with the source, the destination and the trigger.
\<close>

definition notify :: "'w Machine \<Rightarrow> State \<Rightarrow> State \<Rightarrow> Trigger \<Rightarrow> 'w \<Rightarrow> 'w" where
  "notify m from to trigger w = fold (\<lambda>cb. cb from to trigger) (callbacks m) w"

text \<open>
  \<open>Fire\<close>: an unpermitted trigger returns the error and changes nothing; a permitted
  one sets the state to the destination and then runs the callbacks.
\<close>

definition Fire ::
  "'w Machine \<Rightarrow> Trigger \<Rightarrow> 'w \<Rightarrow> (TransitionError + unit) \<times> 'w Machine \<times> 'w" where
  "Fire m trigger w =
     (case FindHandler (sm m) trigger of
        None \<Rightarrow> (Inl (InvalidTransition (sm m) trigger), m, w)
      | Some dst \<Rightarrow> (Inr (), m\<lparr>sm := dst\<rparr>, notify m (sm m) dst trigger w))"

definition CanFire :: "'w Machine \<Rightarrow> Trigger \<Rightarrow> bool" where
  "CanFire m trigger = (FindHandler (sm m) trigger \<noteq> None)"

definition IsInState :: "'w Machine \<Rightarrow> State \<Rightarrow> bool" where
  "IsInState m s = (MachineState m = s)"

definition Machine_IsReady :: "'w Machine \<Rightarrow> bool" where
  "Machine_IsReady m = (MachineState m = StateReady)"

definition Machine_IsConnected :: "'w Machine \<Rightarrow> bool" where
  "Machine_IsConnected m =
     (IsConnectedSubstate (MachineState m) \<or> MachineState m = StateConnecting)"

text \<open>
  A caller firing one trigger after another, as the bridge and the tests do: each call
  continues from the machine the previous call left, whether it returned an error or not.
\<close>

fun FireAll :: "'w Machine \<Rightarrow> Trigger list \<Rightarrow> 'w \<Rightarrow> 'w Machine \<times> 'w" where
  "FireAll m [] w = (m, w)"
| "FireAll m (t # ts) w = (case Fire m t w of (_, m', w') \<Rightarrow> FireAll m' ts w')"

text \<open>
  The transition table of section 4.1 of the specification, written from the
  specification's text: source state and trigger give the destination, and every pair
  the section does not list gives \<open>None\<close>.
\<close>

definition transition_table :: "State \<Rightarrow> Trigger \<Rightarrow> State option" where
  "transition_table s t =
     (case s of
        StateDisconnected \<Rightarrow>
          (case t of
             TriggerConnect \<Rightarrow> Some StateConnecting
           | TriggerShutdown \<Rightarrow> Some StateShuttingDown
           | _ \<Rightarrow> None)
      | StateConnecting \<Rightarrow>
          (case t of
             TriggerQRRequired \<Rightarrow> Some StateQRPending
           | TriggerAuthenticated \<Rightarrow> Some StateSyncing
           | TriggerConnectionLost \<Rightarrow> Some StateReconnecting
           | TriggerDisconnect \<Rightarrow> Some StateDisconnected
           | TriggerShutdown \<Rightarrow> Some StateShuttingDown
           | TriggerFatalError \<Rightarrow> Some StateFatalError
           | _ \<Rightarrow> None)
      | StateQRPending \<Rightarrow>
          (case t of
             TriggerQRScanned \<Rightarrow> Some StateAuthenticating
           | TriggerConnectionLost \<Rightarrow> Some StateReconnecting
           | TriggerDisconnect \<Rightarrow> Some StateDisconnected
           | TriggerShutdown \<Rightarrow> Some StateShuttingDown
           | TriggerFatalError \<Rightarrow> Some StateFatalError
           | _ \<Rightarrow> None)
      | StateAuthenticating \<Rightarrow>
          (case t of
             TriggerAuthenticated \<Rightarrow> Some StateSyncing
           | TriggerSessionInvalid \<Rightarrow> Some StateSessionExpired
           | TriggerConnectionLost \<Rightarrow> Some StateReconnecting
           | TriggerDisconnect \<Rightarrow> Some StateDisconnected
           | TriggerShutdown \<Rightarrow> Some StateShuttingDown
           | TriggerFatalError \<Rightarrow> Some StateFatalError
           | _ \<Rightarrow> None)
      | StateSyncing \<Rightarrow>
          (case t of
             TriggerSyncComplete \<Rightarrow> Some StateReady
           | TriggerConnectionLost \<Rightarrow> Some StateReconnecting
           | TriggerDisconnect \<Rightarrow> Some StateDisconnected
           | TriggerShutdown \<Rightarrow> Some StateShuttingDown
           | TriggerFatalError \<Rightarrow> Some StateFatalError
           | _ \<Rightarrow> None)
      | StateReady \<Rightarrow>
          (case t of
             TriggerConnectionLost \<Rightarrow> Some StateReconnecting
           | TriggerSessionInvalid \<Rightarrow> Some StateSessionExpired
           | TriggerBanDetected \<Rightarrow> Some StateTemporaryBan
           | TriggerLogout \<Rightarrow> Some StateLoggedOut
           | TriggerDisconnect \<Rightarrow> Some StateDisconnected
           | TriggerShutdown \<Rightarrow> Some StateShuttingDown
           | TriggerFatalError \<Rightarrow> Some StateFatalError
           | _ \<Rightarrow> None)
      | StateReconnecting \<Rightarrow>
          (case t of
             TriggerReconnected \<Rightarrow> Some StateReady
           | TriggerQRRequired \<Rightarrow> Some StateQRPending
           | TriggerSessionInvalid \<Rightarrow> Some StateSessionExpired
           | TriggerDisconnect \<Rightarrow> Some StateDisconnected
           | TriggerShutdown \<Rightarrow> Some StateShuttingDown
           | TriggerFatalError \<Rightarrow> Some StateFatalError
           | _ \<Rightarrow> None)
      | StateTemporaryBan \<Rightarrow>
          (case t of
             TriggerBanLifted \<Rightarrow> Some StateReconnecting
           | TriggerDisconnect \<Rightarrow> Some StateDisconnected
           | TriggerShutdown \<Rightarrow> Some StateShuttingDown
           | TriggerFatalError \<Rightarrow> Some StateFatalError
           | _ \<Rightarrow> None)
      | StateLoggedOut \<Rightarrow>
          (case t of
             TriggerConnect \<Rightarrow> Some StateConnecting
           | TriggerShutdown \<Rightarrow> Some StateShuttingDown
           | _ \<Rightarrow> None)
      | StateSessionExpired \<Rightarrow>
          (case t of
             TriggerConnect \<Rightarrow> Some StateConnecting
           | TriggerShutdown \<Rightarrow> Some StateShuttingDown
           | _ \<Rightarrow> None)
      | StateFatalError \<Rightarrow>
          (case t of
             TriggerShutdown \<Rightarrow> Some StateShuttingDown
           | _ \<Rightarrow> None)
      | StateShuttingDown \<Rightarrow> None
      | _ \<Rightarrow> None)"

section \<open>Configuration (internal/config/config.go)\<close>

text \<open>
  A \<open>time.Duration\<close> is a count of nanoseconds and a \<open>time.Time\<close> an instant; both
  are integers here. The values the models handle stay far inside the 64-bit range, so
  no wrap-around is written out.
\<close>

type_synonym Duration = int
type_synonym Time = int


record Config =
  SessionPath :: string
  StorePath :: string
  ConnectTimeout :: Duration
  KeepaliveInterval :: Duration
  ReconnectMaxRetries :: int
  ReconnectBaseDelay :: Duration
  ReconnectMaxDelay :: Duration
  LogLevel :: string
  LogFormat :: string
  MetricsEnabled :: bool
  MetricsPort :: int
  MCPEnabled :: bool



section \<open>The backoff cursor\<close>

text \<open>
  Modelled from the spec: the bodies of \<open>NewExponentialBackOff\<close>, \<open>Reset\<close> and
  \<open>NextBackOff\<close> are missing from the sources; the monitor takes them from the imported
  package \<open>github.com/cenkalti/backoff/v4\<close>. Section 4.2 of the specification describes
  the algorithm: exponential growth from a configured base interval, capped at a
  configured maximum interval, with jitter (a randomized multiplicative factor) applied
  per attempt. The model follows that description with the package's documented
  parameters: the randomized interval is the current interval times a factor between
  \<open>1 - RandomizationFactor\<close> and \<open>1 + RandomizationFactor\<close>, the current interval is
  then multiplied by \<open>Multiplier\<close> and capped at \<open>MaxInterval\<close>; the defaults are
  \<open>RandomizationFactor = 0.5\<close> and \<open>Multiplier = 1.5\<close>, which \<open>NewMonitor\<close> leaves as
  they are. \<open>NewMonitor\<close> sets \<open>MaxElapsedTime = 0\<close>, so the cursor never stops by
  elapsed time and that path is left out. The random draw of each attempt, a number in
  \<open>[0, 1)\<close>, is an argument. Floating-point products are taken exactly, as real numbers,
  and converted to a duration by truncation.
\<close>

record ExponentialBackOff =
  InitialInterval :: Duration
  RandomizationFactor :: real
  Multiplier :: real
  MaxInterval :: Duration
  currentInterval :: Duration

definition trunc :: "real \<Rightarrow> int" where
  "trunc x = (if 0 \<le> x then \<lfloor>x\<rfloor> else \<lceil>x\<rceil>)"



definition getRandomValueFromInterval :: "real \<Rightarrow> real \<Rightarrow> Duration \<Rightarrow> Duration" where
  "getRandomValueFromInterval randomizationFactor random current =
     (if randomizationFactor = 0 then current
      else
        let delta = randomizationFactor * of_int current;
            minInterval = of_int current - delta;
            maxInterval = of_int current + delta
        in trunc (minInterval + random * (maxInterval - minInterval + 1)))"

definition incrementCurrentInterval :: "ExponentialBackOff \<Rightarrow> ExponentialBackOff" where
  "incrementCurrentInterval b =
     (if of_int (currentInterval b) \<ge> of_int (MaxInterval b) / Multiplier b then
        b\<lparr>currentInterval := MaxInterval b\<rparr>
      else
        b\<lparr>currentInterval := trunc (of_int (currentInterval b) * Multiplier b)\<rparr>)"

definition NextBackOff :: "real \<Rightarrow> ExponentialBackOff \<Rightarrow> Duration \<times> ExponentialBackOff" where
  "NextBackOff random b =
     (getRandomValueFromInterval (RandomizationFactor b) random (currentInterval b),
      incrementCurrentInterval b)"


section \<open>The health monitor (package health)\<close>


record Monitor =
  keepaliveInterval :: Duration
  reconnectBackoff :: ExponentialBackOff
  maxRetries :: int
  retryCount :: int
  startTime :: Time
  lastMessage :: Time
  reconnectCount :: int
  messagesReceived :: int
  messagesSent :: int






definition GetLastMessageTime :: "Monitor \<Rightarrow> Time" where
  "GetLastMessageTime m = lastMessage m"

definition GetNextReconnectDelay :: "real \<Rightarrow> Monitor \<Rightarrow> Duration \<times> Monitor" where
  "GetNextReconnectDelay random m =
     (case NextBackOff random (reconnectBackoff m) of
        (delay, b) \<Rightarrow> (delay, m\<lparr>retryCount := retryCount m + 1, reconnectBackoff := b\<rparr>))"


definition IsMaxRetriesExceeded :: "Monitor \<Rightarrow> bool" where
  "IsMaxRetriesExceeded m = (retryCount m > maxRetries m)"


definition GetReconnectCount :: "Monitor \<Rightarrow> int" where
  "GetReconnectCount m = reconnectCount m"

text \<open>
  \<open>ScheduleReconnect\<close> up to the point where it starts the timer: no timer once the
  retries are exceeded, otherwise a timer armed with the next delay.
\<close>

definition ScheduleReconnect :: "real \<Rightarrow> Monitor \<Rightarrow> Duration option \<times> Monitor" where
  "ScheduleReconnect random m =
     (if IsMaxRetriesExceeded m then (None, m)
      else case GetNextReconnectDelay random m of (delay, m') \<Rightarrow> (Some delay, m'))"




section \<open>The persistence layer (internal/store)\<close>

text \<open>
  The rows of the tables the bridge writes. Field names carry the struct's name as a
  prefix, because record fields share one name space.
\<close>

record Message =
  Message_ID :: string
  Message_ChatJID :: string
  Message_Sender :: string
  Message_Content :: string
  Message_Timestamp :: Time
  Message_IsFromMe :: bool
  Message_MediaType :: string
  Message_Filename :: string
  Message_MediaURL :: string
  Message_MediaKey :: "nat list"
  Message_FileSHA256 :: "nat list"
  Message_FileLength :: nat
  Message_QuotedID :: string
  Message_QuotedSender :: string
  Message_IsStarred :: bool
  Message_IsDeleted :: bool
  Message_Reactions :: "string list"


record Chat =
  Chat_JID :: string
  Chat_Name :: string
  Chat_IsGroup :: bool
  Chat_LastMessageTime :: Time
  Chat_UnreadCount :: int
  Chat_Archived :: bool
  Chat_Pinned :: bool
  Chat_Muted :: bool
  Chat_MutedUntil :: "Time option"
  Chat_UpdatedAt :: Time

record Contact =
  Contact_JID :: string
  Contact_Name :: string
  Contact_PushName :: string
  Contact_Phone :: string
  Contact_BusinessName :: string
  Contact_Blocked :: bool
  Contact_IsSaved :: bool
  Contact_UpdatedAt :: Time

record Transition =
  Transition_ID :: int
  Transition_FromState :: State
  Transition_ToState :: State
  Transition_Trigger :: string
  Transition_Timestamp :: Time
  Transition_Error :: string

text \<open>
  The tables of the SQLite schema that the modelled operations read or write: \<open>chats\<close>
  keyed by \<open>jid\<close>, \<open>messages\<close> keyed by \<open>(id, chat_jid)\<close> with a foreign key from
  \<open>chat_jid\<close> to \<open>chats\<close> (the store is opened with foreign keys on), \<open>contacts\<close>
  keyed by \<open>jid\<close>, the single row of \<open>bridge_state\<close>, and the append-only
  \<open>transitions\<close>. The database is taken to be
  open and healthy: a statement fails only by a constraint of the schema.
\<close>

record SQLiteStore =
  chats :: "string \<rightharpoonup> Chat"
  messages :: "string \<times> string \<rightharpoonup> Message"
  contacts :: "string \<rightharpoonup> Contact"
  bridge_state :: "State \<times> Time"
  transitions :: "Transition list"







section \<open>Bridge events (internal/bridge/events.go)\<close>

datatype EventType =
    EventMessage
  | EventReceipt
  | EventPresence
  | EventGroupUpdate
  | EventConnectionChange
  | EventHistorySync
  | EventCallOffer
  | EventChatArchive
  | EventQRCode


record MessagePayload =
  Payload_ID :: string
  Payload_ChatJID :: string
  Payload_Sender :: string
  Payload_Content :: string
  Payload_IsFromMe :: bool
  Payload_MediaType :: string
  Payload_Timestamp :: Time

record QRCodePayload =
  QR_Code :: string

record ConnectionPayload =
  Connection_Connected :: bool
  Connection_Reason :: string

text \<open>
  The \<open>Payload\<close> field is an \<open>interface{}\<close>: one of the three payload structs, or
  any other value.
\<close>

datatype Payload =
    PMessage MessagePayload
  | PQRCode QRCodePayload
  | PConnection ConnectionPayload
  | POther

record Event =
  Event_Type :: EventType
  Event_Payload :: Payload
  Event_Timestamp :: Time


section \<open>The bridge (package bridge)\<close>

datatype Level = LevelDebug | LevelInfo | LevelWarn | LevelError

text \<open>A call of the logger: level, message and the key-value attributes.\<close>

type_synonym LogRecord = "Level \<times> string \<times> (string \<times> string) list"

text \<open>
  The transition callback that \<open>NewBridge\<close> registers is stored inside the machine the
  bridge holds, and its closure reaches the bridge's store, logger and state listeners.
  Those fields, and the others the event handlers touch, are grouped in \<open>BridgeState\<close>,
  the world the machine's callbacks act on. A listener is a function of the caller's;
  it acts on the caller's own state, the type parameter \<open>'x\<close>, held in
  \<open>listenerState\<close>. \<open>clock\<close> is the instant \<open>time.Now\<close> returns.
\<close>

record 'x BridgeState =
  store :: SQLiteStore
  logs :: "LogRecord list"
  clock :: Time
  eventListeners :: "(Event \<Rightarrow> 'x \<Rightarrow> 'x) list"
  stateListeners :: "(State \<Rightarrow> State \<Rightarrow> 'x \<Rightarrow> 'x) list"
  listenerState :: 'x


text \<open>
  \<open>events\<close> is the buffer of the channel \<open>make(chan Event, 100)\<close>, oldest event
  first, and \<open>eventsClosed\<close> says whether \<open>Stop\<close> has closed it.
\<close>

record ('c, 'x) Bridge =
  client :: 'c
  stateMachine :: "'x BridgeState Machine"
  config :: Config
  events :: "Event list"
  eventsClosed :: bool
  state :: "'x BridgeState"














definition OnEvent :: "(Event \<Rightarrow> 'x \<Rightarrow> 'x) \<Rightarrow> ('c, 'x) Bridge \<Rightarrow> ('c, 'x) Bridge" where
  "OnEvent handler b =
     b\<lparr>state := (state b)\<lparr>eventListeners := eventListeners (state b) @ [handler]\<rparr>\<rparr>"

definition OnStateChange :: "(State \<Rightarrow> State \<Rightarrow> 'x \<Rightarrow> 'x) \<Rightarrow> ('c, 'x) Bridge \<Rightarrow> ('c, 'x) Bridge" where
  "OnStateChange handler b =
     b\<lparr>state := (state b)\<lparr>stateListeners := stateListeners (state b) @ [handler]\<rparr>\<rparr>"






subsection \<open>Events of the protocol client\<close>












section \<open>The tool handler (pkg/api)\<close>



record MCPError =
  Code :: string
  Message :: string
  Retry :: bool












text \<open>Tool arguments: a JSON object decoded into \<open>map[string]interface{}\<close>.\<close>

datatype Value = VString string | VFloat real | VInt int | VBool bool | VOther


















section \<open>Systems and inputs the properties are evaluated on\<close>















section \<open>Properties of the state machine\<close>

lemma FindHandler_table: "FindHandler s t = transition_table s t"
  by (cases s; cases t; simp add: FindHandler_def configuration_def transition_table_def)

lemma FindHandler_destination: "FindHandler s t = Some d \<Longrightarrow> d \<in> set destinations"
  by (cases s; cases t; simp add: FindHandler_def configuration_def destinations_def)

lemma destinations_not_connected: "StateConnected \<notin> set destinations"
  by (simp add: destinations_def configuration_def)

lemma Fire_not_connected:
  assumes "sm m \<noteq> StateConnected"
  shows "sm (fst (snd (Fire m t w))) \<noteq> StateConnected"
proof (cases "FindHandler (sm m) t")
  case None
  then show ?thesis using assms by (simp add: Fire_def)
next
  case (Some d)
  then have "d \<noteq> StateConnected"
    using FindHandler_destination destinations_not_connected by blast
  then show ?thesis using Some by (simp add: Fire_def)
qed

lemma FireAll_not_connected:
  "sm m \<noteq> StateConnected \<Longrightarrow> sm (fst (FireAll m ts w)) \<noteq> StateConnected"
proof (induction ts arbitrary: m w)
  case Nil
  then show ?case by simp
next
  case (Cons t ts)
  obtain r m' w' where f: "Fire m t w = (r, m', w')" by (cases "Fire m t w") auto
  have "sm m' \<noteq> StateConnected"
    using Fire_not_connected [OF Cons.prems, of t w] f by simp
  then show ?case using Cons.IH f by simp
qed

lemma Fire_sink:
  "sm m = StateShuttingDown \<Longrightarrow>
   Fire m t w = (Inl (InvalidTransition StateShuttingDown t), m, w)"
  by (simp add: Fire_def FindHandler_def configuration_def)

lemma FireAll_sink: "sm m = StateShuttingDown \<Longrightarrow> FireAll m ts w = (m, w)"
  by (induction ts) (simp_all add: Fire_sink)

lemma shutdown_permitted:
  "s \<noteq> StateConnected \<Longrightarrow> s \<noteq> StateShuttingDown \<Longrightarrow>
   FindHandler s TriggerShutdown = Some StateShuttingDown"
  by (cases s; simp add: FindHandler_def configuration_def)

lemma card_State: "card (UNIV :: State set) = 13"
proof -
  have u: "(UNIV :: State set) = set declared_states"
    unfolding declared_states_def using State.exhaust by auto
  have "distinct declared_states" by (simp add: declared_states_def)
  then have "card (set declared_states) = length declared_states" by (rule distinct_card)
  then show ?thesis unfolding u by (simp add: declared_states_def)
qed

text \<open>
  C1. For every current state and trigger: when the pair is not in the transition table
  of section 4.1, \<open>Fire\<close> returns the invalid-transition error and leaves the machine
  (hence the current state) and the callbacks' world as they were; when the pair is in
  the table, \<open>Fire\<close> returns no error and the current state becomes the listed
  destination. So an unlisted pair is the only way \<open>Fire\<close> fails.
\<close>

theorem fire_follows_transition_table:
  "(transition_table (MachineState m) t = None \<longrightarrow>
      Fire m t w = (Inl (InvalidTransition (MachineState m) t), m, w)) \<and>
   (\<forall>d. transition_table (MachineState m) t = Some d \<longrightarrow>
      fst (Fire m t w) = Inr () \<and> MachineState (fst (snd (Fire m t w))) = d)"
  by (simp add: Fire_def FindHandler_table MachineState_def)

theorem fire_follows_transition_table_witness:
  "transition_table (MachineState (NewMachine\<lparr>sm := StateTemporaryBan\<rparr> :: unit Machine))
       TriggerSyncComplete = None \<and>
   Fire (NewMachine\<lparr>sm := StateTemporaryBan\<rparr>) TriggerSyncComplete () =
       (Inl (InvalidTransition StateTemporaryBan TriggerSyncComplete),
        NewMachine\<lparr>sm := StateTemporaryBan\<rparr>, ()) \<and>
   transition_table (MachineState (NewMachine\<lparr>sm := StateReady\<rparr> :: unit Machine))
       TriggerBanDetected = Some StateTemporaryBan \<and>
   fst (Fire (NewMachine\<lparr>sm := StateReady\<rparr>) TriggerBanDetected ()) = Inr () \<and>
   MachineState (fst (snd (Fire (NewMachine\<lparr>sm := StateReady\<rparr>) TriggerBanDetected ()))) =
       StateTemporaryBan"
  using fire_follows_transition_table
          [of "NewMachine\<lparr>sm := StateTemporaryBan\<rparr> :: unit Machine" TriggerSyncComplete "()"]
        fire_follows_transition_table
          [of "NewMachine\<lparr>sm := StateReady\<rparr> :: unit Machine" TriggerBanDetected "()"]
  by (simp add: transition_table_def MachineState_def NewMachine_def)

text \<open>
  C2, as amended. For every state reached from a new machine by some trigger sequence
  and different from \<open>shutting_down\<close>, firing \<open>shutdown\<close> returns no error and moves the
  machine to \<open>shutting_down\<close>. From \<open>shutting_down\<close> every trigger, \<open>shutdown\<close> included,
  returns the invalid-transition error and leaves machine and world unchanged, so no
  trigger sequence changes the state any more.
\<close>

theorem shutdown_reaches_sink:
  "(MachineState (fst (FireAll (NewMachine\<lparr>callbacks := cbs\<rparr>) ts w)) \<noteq> StateShuttingDown \<longrightarrow>
      (case FireAll (NewMachine\<lparr>callbacks := cbs\<rparr>) ts w of (m', w') \<Rightarrow>
         fst (Fire m' TriggerShutdown w') = Inr () \<and>
         MachineState (fst (snd (Fire m' TriggerShutdown w'))) = StateShuttingDown)) \<and>
   (MachineState m = StateShuttingDown \<longrightarrow>
      Fire m t v = (Inl (InvalidTransition StateShuttingDown t), m, v) \<and>
      FireAll m us v = (m, v))"
proof -
  obtain m' w' where fa: "FireAll (NewMachine\<lparr>callbacks := cbs\<rparr>) ts w = (m', w')"
    by (cases "FireAll (NewMachine\<lparr>callbacks := cbs\<rparr>) ts w") auto
  have "sm (NewMachine\<lparr>callbacks := cbs\<rparr>) \<noteq> StateConnected" by (simp add: NewMachine_def)
  then have nc: "sm m' \<noteq> StateConnected"
    using FireAll_not_connected [of "NewMachine\<lparr>callbacks := cbs\<rparr>" ts w] fa by simp
  have "sm m' \<noteq> StateShuttingDown \<Longrightarrow>
        fst (Fire m' TriggerShutdown w') = Inr () \<and>
        sm (fst (snd (Fire m' TriggerShutdown w'))) = StateShuttingDown"
    using shutdown_permitted [OF nc] by (simp add: Fire_def)
  then show ?thesis
    using fa by (simp add: MachineState_def Fire_sink FireAll_sink)
qed

theorem shutdown_reaches_sink_witness:
  "MachineState (fst (FireAll (NewMachine\<lparr>callbacks := []\<rparr> :: unit Machine)
       [TriggerConnect, TriggerAuthenticated, TriggerSyncComplete] ())) = StateReady \<and>
   StateReady \<noteq> StateShuttingDown \<and>
   fst (Fire (NewMachine\<lparr>sm := StateReady\<rparr> :: unit Machine) TriggerShutdown ()) = Inr () \<and>
   MachineState (fst (snd (Fire (NewMachine\<lparr>sm := StateReady\<rparr> :: unit Machine)
       TriggerShutdown ()))) = StateShuttingDown \<and>
   MachineState (NewMachine\<lparr>sm := StateShuttingDown\<rparr> :: unit Machine) = StateShuttingDown \<and>
   Fire (NewMachine\<lparr>sm := StateShuttingDown\<rparr> :: unit Machine) TriggerConnect () =
      (Inl (InvalidTransition StateShuttingDown TriggerConnect),
       NewMachine\<lparr>sm := StateShuttingDown\<rparr>, ())"
proof -
  have r: "FireAll (NewMachine\<lparr>callbacks := []\<rparr> :: unit Machine)
       [TriggerConnect, TriggerAuthenticated, TriggerSyncComplete] () =
       (NewMachine\<lparr>sm := StateReady\<rparr>, ())"
    by (simp add: Fire_def FindHandler_def configuration_def NewMachine_def notify_def)
  show ?thesis
    using shutdown_reaches_sink
            [of "[]" "[TriggerConnect, TriggerAuthenticated, TriggerSyncComplete]" "()"
                "NewMachine\<lparr>sm := StateShuttingDown\<rparr> :: unit Machine" TriggerConnect "()" "[]"]
    unfolding r by (simp add: MachineState_def)
qed

text \<open>
  The claim as stated fails at \<open>shutting_down\<close> itself, which one \<open>shutdown\<close> reaches
  from the initial state: a second \<open>shutdown\<close> returns the error.
\<close>

theorem shutdown_from_shutting_down_counterexample:
  "MachineState (fst (FireAll (NewMachine :: unit Machine) [TriggerShutdown] ())) =
      StateShuttingDown \<and>
   fst (Fire (fst (FireAll (NewMachine :: unit Machine) [TriggerShutdown] ()))
          TriggerShutdown ()) =
      Inl (InvalidTransition StateShuttingDown TriggerShutdown)"
  by (simp add: Fire_def FindHandler_def configuration_def NewMachine_def MachineState_def
        notify_def)

text \<open>
  C8, as amended. From \<open>logged_out\<close>, \<open>session_expired\<close>, \<open>fatal_error\<close> and
  \<open>shutting_down\<close> a trigger can fire only if it is \<open>connect\<close> or \<open>shutdown\<close>;
  \<open>shutting_down\<close> permits no trigger at all; \<open>temporary_ban\<close> permits exactly
  \<open>ban_lifted\<close>, \<open>disconnect\<close>, \<open>shutdown\<close> and \<open>fatal_error\<close>.
\<close>

theorem terminal_states_permissions:
  "(s \<in> {StateLoggedOut, StateSessionExpired, StateFatalError, StateShuttingDown} \<and>
      CanFire (m\<lparr>sm := s\<rparr>) t \<longrightarrow> t = TriggerConnect \<or> t = TriggerShutdown) \<and>
   \<not> CanFire (m\<lparr>sm := StateShuttingDown\<rparr>) t \<and>
   CanFire (m\<lparr>sm := StateTemporaryBan\<rparr>) t =
     (t \<in> {TriggerBanLifted, TriggerDisconnect, TriggerShutdown, TriggerFatalError})"
  by (cases t; simp add: CanFire_def FindHandler_def configuration_def; auto)

theorem terminal_states_permissions_witness:
  "StateLoggedOut \<in> {StateLoggedOut, StateSessionExpired, StateFatalError, StateShuttingDown} \<and>
   CanFire (NewMachine\<lparr>sm := StateLoggedOut\<rparr> :: unit Machine) TriggerConnect \<and>
   \<not> CanFire (NewMachine\<lparr>sm := StateShuttingDown\<rparr> :: unit Machine) TriggerConnect \<and>
   \<not> CanFire (NewMachine\<lparr>sm := StateTemporaryBan\<rparr> :: unit Machine) TriggerConnect"
  using terminal_states_permissions [of StateLoggedOut "NewMachine :: unit Machine" TriggerConnect]
  by (simp add: CanFire_def FindHandler_def configuration_def)

text \<open>
  The claim as stated fails at \<open>temporary_ban\<close>: \<open>ban_lifted\<close> can fire there and is
  neither \<open>connect\<close> nor \<open>shutdown\<close>.
\<close>

theorem temporary_ban_permits_ban_lifted_counterexample:
  "CanFire (NewMachine\<lparr>sm := StateTemporaryBan\<rparr> :: unit Machine) TriggerBanLifted \<and>
   TriggerBanLifted \<noteq> TriggerConnect \<and> TriggerBanLifted \<noteq> TriggerShutdown"
  by (simp add: CanFire_def FindHandler_def configuration_def)

text \<open>
  C9, as amended. The source declares exactly 13 state constants with pairwise distinct
  string values: the 12 states of the specification's partition and, in addition,
  \<open>connected\<close>.
\<close>

theorem state_enumeration:
  "set declared_states = UNIV \<and> distinct (map State_String declared_states) \<and>
   length declared_states = 13 \<and> card (UNIV :: State set) = 13 \<and>
   set declared_states = insert StateConnected (set spec_partition) \<and>
   StateConnected \<notin> set spec_partition \<and> distinct spec_partition \<and>
   length spec_partition = 12"
proof -
  have "set declared_states = UNIV"
    unfolding declared_states_def using State.exhaust by auto
  moreover have "distinct (map State_String declared_states)"
    by (simp add: declared_states_def)
  moreover have "set declared_states = insert StateConnected (set spec_partition)"
    by (auto simp add: declared_states_def spec_partition_def)
  ultimately show ?thesis
    by (simp add: card_State) (simp add: declared_states_def spec_partition_def)
qed

text \<open>
  The claim as stated fails on the count and on the membership: the type has 13 values,
  not 14, and \<open>connected\<close> is a value outside the partition.
\<close>

theorem state_count_counterexample:
  "card (UNIV :: State set) \<noteq> 14 \<and> StateConnected \<notin> set spec_partition \<and>
   length spec_partition \<noteq> 14"
  by (simp add: card_State spec_partition_def)

text \<open>
  C10. The state \<open>connected\<close> is unreachable: a new machine starts in \<open>disconnected\<close>,
  no \<open>Permit\<close> call names \<open>connected\<close> as destination, and after any trigger sequence
  fired at a new machine, whatever callbacks are registered, the current state is not
  \<open>connected\<close>.
\<close>

theorem connected_unreachable:
  "MachineState (NewMachine :: 'w Machine) = StateDisconnected \<and>
   StateConnected \<notin> set destinations \<and>
   MachineState (fst (FireAll (NewMachine\<lparr>callbacks := cbs\<rparr>) ts w)) \<noteq> StateConnected"
proof -
  have "sm (NewMachine\<lparr>callbacks := cbs\<rparr>) \<noteq> StateConnected" by (simp add: NewMachine_def)
  then have "sm (fst (FireAll (NewMachine\<lparr>callbacks := cbs\<rparr>) ts w)) \<noteq> StateConnected"
    by (rule FireAll_not_connected)
  then show ?thesis
    by (simp add: MachineState_def NewMachine_def destinations_not_connected)
qed

section \<open>Properties of the backoff cursor\<close>



















section \<open>Properties of the bridge and the health monitor\<close>















































end
